theory Spec2Isabelle
  imports Main "HOL-Library.Char_ord" "HOL-Library.List_Lexorder" "HOL-Library.AList"
begin

section \<open>Python values, errors and text\<close>

text \<open>
  The two scripts are modelled as pure functions of their environment: the HTTP
  exchange, the wall clock and the content of the data directory are arguments, the
  printed lines and the new directory content are results.  An exception that no
  handler of the script catches ends the call with \<open>Raised\<close>.
  Text is ASCII text, a \<open>string\<close>.
\<close>

datatype pyerror = AttributeError | TypeError | OverflowError | CsvError

datatype 'a outcome = Returned 'a | Raised pyerror

definition digit_char :: "nat \<Rightarrow> char" where
  "digit_char n = ''0123456789'' ! n"

fun str_nat :: "nat \<Rightarrow> string" where
  "str_nat n = (if n < 10 then [digit_char n] else str_nat (n div 10) @ [digit_char (n mod 10)])"

declare str_nat.simps [simp del]

definition str_int :: "int \<Rightarrow> string" where
  \<comment> \<open>\<open>str(count)\<close> of a Python int\<close>
  "str_int i = (if i < 0 then CHR ''-'' # str_nat (nat (- i)) else str_nat (nat i))"

section \<open>The Collector: \<open>fetch_gym_data.py\<close>\<close>

subsection \<open>The HTTP exchange\<close>

text \<open>
  A decoded JSON document as \<open>response.json()\<close> returns it: \<open>JNull\<close> is Python's
  \<open>None\<close>, an object is a \<open>dict\<close>, given by its items.  A float is kept as its literal.
\<close>

datatype json =
    JNull
  | JBool bool
  | JInt int
  | JFloat string
  | JStr string
  | JArr "json list"
  | JObj "(string \<times> json) list"

text \<open>
  What \<open>requests.post\<close> meets.  \<open>RequestFailed e\<close>: no response arrived (connection
  error, timeout, too many redirects), the library raises a \<open>RequestException\<close> with
  text \<open>e\<close>.  \<open>Response status reason body\<close>: a response arrived; its body either does
  not decode (\<open>response.json()\<close> raises a \<open>JSONDecodeError\<close>, a \<open>ValueError\<close>, with the
  given text) or decodes to a document.
\<close>

datatype body = NotJson string | Json json

datatype exchange = RequestFailed string | Response nat string body

definition API_URL :: string where
  "API_URL = ''https://solutions.sportlife.ua/Connect/hs/external/''"

definition raise_for_status :: "nat \<Rightarrow> string \<Rightarrow> string option" where
  \<comment> \<open>\<open>Response.raise_for_status\<close> of the requests library: an \<open>HTTPError\<close> (here its
      text) for a status from 400 to 599, nothing otherwise\<close>
  "raise_for_status status reason =
     (if 400 \<le> status \<and> status < 500
        then Some (str_nat status @ '' Client Error: '' @ reason @ '' for url: '' @ API_URL)
      else if 500 \<le> status \<and> status < 600
        then Some (str_nat status @ '' Server Error: '' @ reason @ '' for url: '' @ API_URL)
      else None)"

definition dict_get :: "(string \<times> json) list \<Rightarrow> string \<Rightarrow> json" where
  \<comment> \<open>\<open>dict.get(key)\<close>: the value, or \<open>None\<close> for a missing key\<close>
  "dict_get kvs k = (case map_of kvs k of None \<Rightarrow> JNull | Some v \<Rightarrow> v)"

definition fetch_gym_load :: "exchange \<Rightarrow> string list \<times> json outcome" where
  \<comment> \<open>the printed lines and the result; the handler catches \<open>RequestException\<close>,
      \<open>ValueError\<close> and \<open>KeyError\<close>, so the \<open>AttributeError\<close> of \<open>data.get\<close> on a
      document that is not a dict leaves the function\<close>
  "fetch_gym_load x =
     (case x of
        RequestFailed e \<Rightarrow> ([''Error fetching data: '' @ e], Returned JNull)
      | Response status reason b \<Rightarrow>
          (case raise_for_status status reason of
             Some e \<Rightarrow> ([''Error fetching data: '' @ e], Returned JNull)
           | None \<Rightarrow>
               (case b of
                  NotJson e \<Rightarrow> ([''Error fetching data: '' @ e], Returned JNull)
                | Json data \<Rightarrow>
                    (case data of
                       JObj kvs \<Rightarrow> ([], Returned (dict_get kvs ''number''))
                     | _ \<Rightarrow> ([], Raised AttributeError)))))"

subsection \<open>Dates and times\<close>

text \<open>
  A \<open>date\<close> and a naive \<open>datetime\<close> with the fields Python gives them.  The library
  subtracts a \<open>timedelta\<close> and compares two values on the proleptic Gregorian time
  line, where the day of a date is its ordinal (\<open>date.toordinal\<close>, 1 for 0001-01-01);
  \<open>to_us\<close> is the position of a \<open>datetime\<close> on that line in microseconds.  The result
  of a subtraction is kept as such a position (an \<open>instant\<close>).
\<close>

record date =
  year :: nat
  month :: nat
  day :: nat

record datetime =
  date_part :: date
  hour :: nat
  minute :: nat
  second :: nat
  microsecond :: nat

type_synonym instant = int

definition is_leap :: "nat \<Rightarrow> bool" where
  "is_leap y = (y mod 4 = 0 \<and> (y mod 100 \<noteq> 0 \<or> y mod 400 = 0))"

definition days_in_month :: "nat \<Rightarrow> nat \<Rightarrow> nat" where
  "days_in_month y m =
     (if m = 2 then (if is_leap y then 29 else 28)
      else if m = 4 \<or> m = 6 \<or> m = 9 \<or> m = 11 then 30 else 31)"

definition days_before_year :: "nat \<Rightarrow> nat" where
  "days_before_year y = 365 * (y - 1) + (y - 1) div 4 + (y - 1) div 400 - (y - 1) div 100"

definition days_before_month :: "nat \<Rightarrow> nat \<Rightarrow> nat" where
  "days_before_month y m = sum_list (map (days_in_month y) [1..<m])"

definition valid_date :: "date \<Rightarrow> bool" where
  "valid_date d = (1 \<le> year d \<and> year d \<le> 9999 \<and> 1 \<le> month d \<and> month d \<le> 12
                   \<and> 1 \<le> day d \<and> day d \<le> days_in_month (year d) (month d))"

definition valid_datetime :: "datetime \<Rightarrow> bool" where
  "valid_datetime t = (valid_date (date_part t) \<and> hour t < 24 \<and> minute t < 60
                       \<and> second t < 60 \<and> microsecond t < 1000000)"

definition toordinal :: "date \<Rightarrow> int" where
  "toordinal d = int (days_before_year (year d) + days_before_month (year d) (month d) + day d)"

definition MAXORDINAL :: int where
  \<comment> \<open>the ordinal of 9999-12-31\<close>
  "MAXORDINAL = 3652059"

definition us_per_day :: int where
  "us_per_day = 86400000000"

definition to_us :: "datetime \<Rightarrow> instant" where
  "to_us t = toordinal (date_part t) * us_per_day
             + ((int (hour t) * 60 + int (minute t)) * 60 + int (second t)) * 1000000
             + int (microsecond t)"

definition ordinal_of :: "instant \<Rightarrow> int" where
  \<comment> \<open>the ordinal of \<open>cutoff.date()\<close>\<close>
  "ordinal_of i = i div us_per_day"

definition sub_hours :: "datetime \<Rightarrow> int \<Rightarrow> pyerror + instant" where
  \<comment> \<open>\<open>now - timedelta(hours=hours)\<close>: "date value out of range" outside years 1..9999\<close>
  "sub_hours now hours =
     (let i = to_us now - hours * 3600000000
      in if 1 \<le> ordinal_of i \<and> ordinal_of i \<le> MAXORDINAL then Inr i else Inl OverflowError)"

definition sub_days :: "int \<Rightarrow> int \<Rightarrow> pyerror + int" where
  \<comment> \<open>\<open>date - timedelta(days=n)\<close> on ordinals\<close>
  "sub_days ord n =
     (if 1 \<le> ord - n \<and> ord - n \<le> MAXORDINAL then Inr (ord - n) else Inl OverflowError)"

subsection \<open>Formatting\<close>

definition pad2 :: "nat \<Rightarrow> string" where
  "pad2 n = [digit_char (n div 10 mod 10), digit_char (n mod 10)]"

definition pad4 :: "nat \<Rightarrow> string" where
  "pad4 n = [digit_char (n div 1000 mod 10), digit_char (n div 100 mod 10),
             digit_char (n div 10 mod 10), digit_char (n mod 10)]"

definition pad6 :: "nat \<Rightarrow> string" where
  "pad6 n = pad2 (n div 10000) @ pad4 (n mod 10000)"

definition str_date :: "date \<Rightarrow> string" where
  \<comment> \<open>\<open>strftime("%Y-%m-%d")\<close> and \<open>str\<close> of a date: zero-padded fields\<close>
  "str_date d = pad4 (year d) @ ''-'' @ pad2 (month d) @ ''-'' @ pad2 (day d)"

definition str_time :: "datetime \<Rightarrow> string" where
  \<comment> \<open>\<open>strftime("%H:%M")\<close>\<close>
  "str_time t = pad2 (hour t) @ '':'' @ pad2 (minute t)"

definition str_datetime :: "datetime \<Rightarrow> string" where
  \<comment> \<open>\<open>str\<close> of a datetime\<close>
  "str_datetime t =
     str_date (date_part t) @ '' '' @ str_time t @ '':'' @ pad2 (second t)
     @ (if microsecond t = 0 then [] else ''.'' @ pad6 (microsecond t))"

subsection \<open>The data directory and the csv writer\<close>

text \<open>
  The data directory is the list of its files, each a name and a content.
  \<open>csv.writer\<close> is the default (excel) dialect: fields joined by commas, a field quoted
  only when it holds a comma, a quote or a line break, each row ended by CR LF.
\<close>

type_synonym directory = "(string \<times> string) list"

definition CR :: char where "CR = CHR 0x0D"
definition LF :: char where "LF = CHR 0x0A"
definition QUOTE :: char where "QUOTE = CHR 0x22"
definition COMMA :: char where "COMMA = CHR '',''"

definition special :: "char \<Rightarrow> bool" where
  "special c = (c = COMMA \<or> c = QUOTE \<or> c = CR \<or> c = LF)"

definition csv_field :: "string \<Rightarrow> string" where
  "csv_field s =
     (if list_ex special s
      then [QUOTE] @ concat (map (\<lambda>c. if c = QUOTE then [c, c] else [c]) s) @ [QUOTE]
      else s)"

fun join_fields :: "string list \<Rightarrow> string" where
  "join_fields [] = []"
| "join_fields [f] = f"
| "join_fields (f # g # fs) = f @ [COMMA] @ join_fields (g # fs)"

definition writerow :: "string list \<Rightarrow> string" where
  "writerow fs = (if fs = [[]] then [QUOTE, QUOTE] else join_fields (map csv_field fs)) @ [CR, LF]"

definition mkdir :: "directory option \<Rightarrow> directory" where
  \<comment> \<open>\<open>DATA_DIR.mkdir(exist_ok=True)\<close>\<close>
  "mkdir fs = (case fs of None \<Rightarrow> [] | Some d \<Rightarrow> d)"

definition save_to_csv :: "datetime \<Rightarrow> int \<Rightarrow> directory option \<Rightarrow> directory \<times> string list" where
  \<comment> \<open>the clock reading \<open>now\<close> and the directory are arguments; the new directory and the
      printed line are the result\<close>
  "save_to_csv now count fs =
     (let d = mkdir fs;
          date_str = str_date (date_part now);
          time_str = str_time now;
          csv_path = date_str @ ''.csv'';
          file_exists = (map_of d csv_path \<noteq> None);
          old = (case map_of d csv_path of None \<Rightarrow> [] | Some content \<Rightarrow> content);
          new = old @ (if \<not> file_exists then writerow [''time'', ''count''] else [])
                    @ writerow [time_str, str_int count]
      in (AList.update csv_path new d,
          [''Saved: '' @ time_str @ '' -> '' @ str_int count @ '' people'']))"

section \<open>The Reporter: \<open>plot_gym_data.py\<close>\<close>

subsection \<open>Reading a csv file\<close>

text \<open>
  A file opened with \<open>newline=""\<close> is iterated line by line, a line ending after LF,
  CR LF or a lone CR, the ending kept.
\<close>

fun readlines :: "string \<Rightarrow> string \<Rightarrow> string list" where
  "readlines cur [] = (if cur = [] then [] else [cur])"
| "readlines cur [c] = [cur @ [c]]"
| "readlines cur (c # d # ds) =
     (if c = LF then (cur @ [c]) # readlines [] (d # ds)
      else if c = CR then
        (if d = LF then (cur @ [c, d]) # readlines [] ds
         else (cur @ [c]) # readlines [] (d # ds))
      else readlines (cur @ [c]) (d # ds))"

text \<open>
  The state machine of \<open>csv.reader\<close> for the default dialect (comma, double quote,
  doubled quotes inside a quoted field, not strict).  A character is \<open>Some c\<close>, the end
  of a line is \<open>None\<close>.  The limit on the size of a field is not modelled.
\<close>

datatype parser_state =
  START_RECORD | START_FIELD | IN_FIELD | IN_QUOTED_FIELD | QUOTE_IN_QUOTED_FIELD | EAT_CRNL

record reader =
  state :: parser_state
  field :: string
  row_fields :: "string list"

definition parse_reset :: reader where
  "parse_reset = \<lparr>state = START_RECORD, field = [], row_fields = []\<rparr>"

definition parse_save_field :: "reader \<Rightarrow> reader" where
  "parse_save_field r = r\<lparr>row_fields := row_fields r @ [field r], field := []\<rparr>"

definition parse_add_char :: "reader \<Rightarrow> char \<Rightarrow> reader" where
  "parse_add_char r c = r\<lparr>field := field r @ [c]\<rparr>"

definition end_of_line :: "reader \<Rightarrow> char option \<Rightarrow> reader" where
  \<comment> \<open>a line break or the end of the line closes the field and the record\<close>
  "end_of_line r c = (parse_save_field r)\<lparr>state := (if c = None then START_RECORD else EAT_CRNL)\<rparr>"

definition is_break :: "char option \<Rightarrow> bool" where
  "is_break c = (c = None \<or> c = Some LF \<or> c = Some CR)"

definition start_field :: "reader \<Rightarrow> char option \<Rightarrow> reader" where
  "start_field r c =
     (if is_break c then end_of_line r c
      else if c = Some QUOTE then r\<lparr>state := IN_QUOTED_FIELD\<rparr>
      else if c = Some COMMA then parse_save_field r
      else (parse_add_char r (the c))\<lparr>state := IN_FIELD\<rparr>)"

definition parse_process_char :: "reader \<Rightarrow> char option \<Rightarrow> pyerror + reader" where
  "parse_process_char r c =
     (case state r of
        START_RECORD \<Rightarrow>
          (if c = None then Inr r
           else if is_break c then Inr (r\<lparr>state := EAT_CRNL\<rparr>)
           else Inr (start_field (r\<lparr>state := START_FIELD\<rparr>) c))
      | START_FIELD \<Rightarrow> Inr (start_field r c)
      | IN_FIELD \<Rightarrow>
          (if is_break c then Inr (end_of_line r c)
           else if c = Some COMMA then Inr ((parse_save_field r)\<lparr>state := START_FIELD\<rparr>)
           else Inr (parse_add_char r (the c)))
      | IN_QUOTED_FIELD \<Rightarrow>
          (if c = None then Inr r
           else if c = Some QUOTE then Inr (r\<lparr>state := QUOTE_IN_QUOTED_FIELD\<rparr>)
           else Inr (parse_add_char r (the c)))
      | QUOTE_IN_QUOTED_FIELD \<Rightarrow>
          (if c = Some QUOTE then Inr ((parse_add_char r QUOTE)\<lparr>state := IN_QUOTED_FIELD\<rparr>)
           else if c = Some COMMA then Inr ((parse_save_field r)\<lparr>state := START_FIELD\<rparr>)
           else if is_break c then Inr (end_of_line r c)
           else Inr ((parse_add_char r (the c))\<lparr>state := IN_FIELD\<rparr>))
      | EAT_CRNL \<Rightarrow>
          (if c = Some LF \<or> c = Some CR then Inr r
           else if c = None then Inr (r\<lparr>state := START_RECORD\<rparr>)
           else Inl CsvError))"

fun process_chars :: "reader \<Rightarrow> string \<Rightarrow> pyerror + reader" where
  "process_chars r [] = Inr r"
| "process_chars r (c # cs) =
     (case parse_process_char r (Some c) of Inl e \<Rightarrow> Inl e | Inr r' \<Rightarrow> process_chars r' cs)"

definition process_line :: "reader \<Rightarrow> string \<Rightarrow> pyerror + reader" where
  \<comment> \<open>the characters of the line, then the end of the line\<close>
  "process_line r l =
     (case process_chars r l of Inl e \<Rightarrow> Inl e | Inr r' \<Rightarrow> parse_process_char r' None)"

fun reader_rows :: "string list \<Rightarrow> reader \<Rightarrow> pyerror + string list list" where
  \<comment> \<open>the rows the reader yields: a row is complete when a line leaves the machine in
      \<open>START_RECORD\<close>; at the end of the input an open field closes the last row\<close>
  "reader_rows [] r =
     (if field r \<noteq> [] \<or> state r = IN_QUOTED_FIELD
      then Inr [row_fields (parse_save_field r)] else Inr [])"
| "reader_rows (l # ls) r =
     (case process_line r l of
        Inl e \<Rightarrow> Inl e
      | Inr r' \<Rightarrow>
          if state r' = START_RECORD
          then (case reader_rows ls parse_reset of
                  Inl e \<Rightarrow> Inl e | Inr rows \<Rightarrow> Inr (row_fields r' # rows))
          else reader_rows ls r')"

definition csv_reader :: "string \<Rightarrow> pyerror + string list list" where
  "csv_reader content = reader_rows (readlines [] content) parse_reset"

text \<open>
  \<open>csv.DictReader\<close>: the first row gives the field names, empty rows are dropped, and
  every other row becomes a dict from field name to value, a name without a value in
  a short row getting \<open>None\<close>.  The dict is given by its items, the item that counts
  first; the values beyond the field names (kept under the key \<open>None\<close>) are left out.
\<close>

type_synonym row = "(string \<times> string option) list"

definition row_dict :: "string list \<Rightarrow> string list \<Rightarrow> row" where
  "row_dict fieldnames r =
     rev (zip fieldnames (map Some r @ replicate (length fieldnames - length r) None))"

definition DictReader :: "string \<Rightarrow> pyerror + row list" where
  "DictReader content =
     (case csv_reader content of
        Inl e \<Rightarrow> Inl e
      | Inr [] \<Rightarrow> Inr []
      | Inr (fieldnames # rows) \<Rightarrow> Inr (map (row_dict fieldnames) (filter (\<lambda>r. r \<noteq> []) rows)))"

subsection \<open>Parsing numbers, dates and times\<close>

definition is_space :: "char \<Rightarrow> bool" where
  \<comment> \<open>the ASCII characters Python takes for white space\<close>
  "is_space c = (let n = (of_char c :: nat) in (9 \<le> n \<and> n \<le> 13) \<or> (28 \<le> n \<and> n \<le> 32))"

definition is_digit :: "char \<Rightarrow> bool" where
  "is_digit c = (let n = (of_char c :: nat) in 48 \<le> n \<and> n \<le> 57)"

definition digit_val :: "char \<Rightarrow> nat" where
  "digit_val c = of_char c - 48"

definition digits_val :: "string \<Rightarrow> nat" where
  "digits_val s = foldl (\<lambda>a c. 10 * a + digit_val c) 0 s"

definition strip :: "string \<Rightarrow> string" where
  "strip s = rev (dropWhile is_space (rev (dropWhile is_space s)))"

fun digits_ok :: "string \<Rightarrow> bool" where
  \<comment> \<open>digits, single underscores allowed between two digits\<close>
  "digits_ok [] = False"
| "digits_ok [c] = is_digit c"
| "digits_ok (c # d # ds) =
     (is_digit c \<and> (if d = CHR ''_'' then digits_ok ds else digits_ok (d # ds)))"

definition py_int :: "string \<Rightarrow> int option" where
  \<comment> \<open>\<open>int(s)\<close> of a string: \<open>None\<close> is the \<open>ValueError\<close>\<close>
  "py_int s =
     (case strip s of
        [] \<Rightarrow> None
      | c # cs \<Rightarrow>
          (let b = (if c = CHR ''-'' \<or> c = CHR ''+'' then cs else c # cs);
               v = int (digits_val (filter (\<lambda>x. x \<noteq> CHR ''_'') b))
           in if digits_ok b then Some (if c = CHR ''-'' then - v else v) else None))"

text \<open>
  The directives of \<open>strptime\<close> match these texts: \<open>%Y\<close> four digits, \<open>%m\<close> 1..12,
  \<open>%d\<close> 1..31, \<open>%H\<close> 0..23, \<open>%M\<close> 0..59, one or two digits each, a leading zero allowed
  (and a leading space for the day).
\<close>

definition two :: "char \<Rightarrow> char \<Rightarrow> nat" where
  "two a b = 10 * digit_val a + digit_val b"

definition year_of :: "string \<Rightarrow> nat option" where
  "year_of s = (if length s = 4 \<and> list_all is_digit s then Some (digits_val s) else None)"

definition month_of :: "string \<Rightarrow> nat option" where
  "month_of s =
     (case s of
        [a] \<Rightarrow> if is_digit a \<and> a \<noteq> CHR ''0'' then Some (digit_val a) else None
      | [a, b] \<Rightarrow>
          if (a = CHR ''1'' \<and> is_digit b \<and> digit_val b \<le> 2)
             \<or> (a = CHR ''0'' \<and> is_digit b \<and> b \<noteq> CHR ''0'')
          then Some (two a b) else None
      | _ \<Rightarrow> None)"

definition day_of :: "string \<Rightarrow> nat option" where
  "day_of s =
     (case s of
        [a] \<Rightarrow> if is_digit a \<and> a \<noteq> CHR ''0'' then Some (digit_val a) else None
      | [a, b] \<Rightarrow>
          if (a = CHR ''3'' \<and> is_digit b \<and> digit_val b \<le> 1)
             \<or> ((a = CHR ''1'' \<or> a = CHR ''2'') \<and> is_digit b)
             \<or> (a = CHR ''0'' \<and> is_digit b \<and> b \<noteq> CHR ''0'')
          then Some (two a b)
          else if a = CHR '' '' \<and> is_digit b \<and> b \<noteq> CHR ''0'' then Some (digit_val b)
          else None
      | _ \<Rightarrow> None)"

definition hour_of :: "string \<Rightarrow> nat option" where
  "hour_of s =
     (case s of
        [a] \<Rightarrow> if is_digit a then Some (digit_val a) else None
      | [a, b] \<Rightarrow>
          if (a = CHR ''2'' \<and> is_digit b \<and> digit_val b \<le> 3)
             \<or> ((a = CHR ''0'' \<or> a = CHR ''1'') \<and> is_digit b)
          then Some (two a b) else None
      | _ \<Rightarrow> None)"

definition minute_of :: "string \<Rightarrow> nat option" where
  "minute_of s =
     (case s of
        [a] \<Rightarrow> if is_digit a then Some (digit_val a) else None
      | [a, b] \<Rightarrow> if is_digit a \<and> digit_val a \<le> 5 \<and> is_digit b then Some (two a b) else None
      | _ \<Rightarrow> None)"

definition strptime_date :: "string \<Rightarrow> date option" where
  \<comment> \<open>\<open>datetime.strptime(s, "%Y-%m-%d").date()\<close>: \<open>None\<close> is the \<open>ValueError\<close>, raised
      also for a day the month does not have and for the year 0\<close>
  "strptime_date s =
     (let ms = takeWhile (\<lambda>c. c \<noteq> CHR ''-'') (drop 5 s);
          ds = drop 1 (dropWhile (\<lambda>c. c \<noteq> CHR ''-'') (drop 5 s))
      in if length s < 5 \<or> s ! 4 \<noteq> CHR ''-'' \<or> dropWhile (\<lambda>c. c \<noteq> CHR ''-'') (drop 5 s) = []
         then None
         else (case (year_of (take 4 s), month_of ms, day_of ds) of
                 (Some y, Some m, Some d) \<Rightarrow>
                   if 1 \<le> y \<and> d \<le> days_in_month y m
                   then Some \<lparr>year = y, month = m, day = d\<rparr> else None
               | _ \<Rightarrow> None))"

definition strptime_time :: "string \<Rightarrow> (nat \<times> nat) option" where
  \<comment> \<open>the part of \<open>strptime(f"{file_date} {time_str}", "%Y-%m-%d %H:%M")\<close> that reads
      \<open>time_str\<close>: the blank of the format takes all white space before the hour\<close>
  "strptime_time s =
     (let t = dropWhile is_space s;
          hs = takeWhile (\<lambda>c. c \<noteq> CHR '':'') t;
          r = dropWhile (\<lambda>c. c \<noteq> CHR '':'') t
      in if r = [] then None
         else (case (hour_of hs, minute_of (drop 1 r)) of
                 (Some h, Some m) \<Rightarrow> Some (h, m)
               | _ \<Rightarrow> None))"

definition py_str :: "string option \<Rightarrow> string" where
  \<comment> \<open>a value of a row inside an f-string\<close>
  "py_str v = (case v of None \<Rightarrow> ''None'' | Some s \<Rightarrow> s)"

subsection \<open>Loading and plotting\<close>

definition glob_csv :: "directory \<Rightarrow> directory" where
  \<comment> \<open>\<open>DATA_DIR.glob("*.csv")\<close>: the files whose name ends in \<open>.csv\<close>\<close>
  "glob_csv d = filter (\<lambda>(name, content). 4 \<le> length name
                            \<and> drop (length name - 4) name = ''.csv'') d"

definition sorted_paths :: "directory \<Rightarrow> directory" where
  \<comment> \<open>\<open>sorted\<close> on paths of one directory: by name, character by character\<close>
  "sorted_paths d = sort_key fst d"

definition stem :: "string \<Rightarrow> string" where
  \<comment> \<open>\<open>Path.stem\<close>: the name up to its last dot, when that dot is neither the first nor
      the last character\<close>
  "stem name =
     (let k = length (takeWhile (\<lambda>c. c \<noteq> CHR ''.'') (rev name))
      in if list_ex (\<lambda>c. c = CHR ''.'') name \<and> 0 < k \<and> k + 1 < length name
         then take (length name - k - 1) name else name)"

datatype row_result = Skip | Keep datetime int | Crash pyerror

definition load_row :: "instant \<Rightarrow> date \<Rightarrow> row \<Rightarrow> row_result" where
  \<comment> \<open>the body of the row loop: \<open>Skip\<close> is \<open>continue\<close> (after a \<open>KeyError\<close> or a
      \<open>ValueError\<close>, or for a time before the cutoff), \<open>Keep\<close> the two appends, \<open>Crash\<close>
      an exception the handler does not catch: \<open>int(None)\<close> is a \<open>TypeError\<close>\<close>
  "load_row cutoff file_date r =
     (case map_of r ''time'' of
        None \<Rightarrow> Skip
      | Some time_str \<Rightarrow>
          (case map_of r ''count'' of
             None \<Rightarrow> Skip
           | Some None \<Rightarrow> Crash TypeError
           | Some (Some s) \<Rightarrow>
               (case py_int s of
                  None \<Rightarrow> Skip
                | Some count \<Rightarrow>
                    (case strptime_time (py_str time_str) of
                       None \<Rightarrow> Skip
                     | Some (h, m) \<Rightarrow>
                         (let dt = \<lparr>date_part = file_date, hour = h, minute = m,
                                    second = 0, microsecond = 0\<rparr>
                          in if to_us dt \<ge> cutoff then Keep dt count else Skip)))))"

fun load_rows :: "instant \<Rightarrow> date \<Rightarrow> row list \<Rightarrow> datetime list \<times> int list
                  \<Rightarrow> pyerror + datetime list \<times> int list" where
  "load_rows cutoff file_date [] acc = Inr acc"
| "load_rows cutoff file_date (r # rs) (timestamps, counts) =
     (case load_row cutoff file_date r of
        Crash e \<Rightarrow> Inl e
      | Skip \<Rightarrow> load_rows cutoff file_date rs (timestamps, counts)
      | Keep dt count \<Rightarrow> load_rows cutoff file_date rs (timestamps @ [dt], counts @ [count]))"

definition load_file :: "instant \<Rightarrow> date \<Rightarrow> string \<Rightarrow> datetime list \<times> int list
                         \<Rightarrow> pyerror + datetime list \<times> int list" where
  \<comment> \<open>the \<open>with open\<close> block\<close>
  "load_file cutoff file_date content acc =
     (case DictReader content of
        Inl e \<Rightarrow> Inl e
      | Inr rows \<Rightarrow> load_rows cutoff file_date rows acc)"

fun load_files :: "instant \<Rightarrow> directory \<Rightarrow> datetime list \<times> int list
                   \<Rightarrow> pyerror + datetime list \<times> int list" where
  "load_files cutoff [] acc = Inr acc"
| "load_files cutoff ((name, content) # csv_files) acc =
     (case strptime_date (stem name) of
        None \<Rightarrow> load_files cutoff csv_files acc
      | Some file_date \<Rightarrow>
          (case sub_days (ordinal_of cutoff) 1 of
             Inl e \<Rightarrow> Inl e
           | Inr oldest \<Rightarrow>
               if toordinal file_date < oldest then load_files cutoff csv_files acc
               else (case load_file cutoff file_date content acc of
                       Inl e \<Rightarrow> Inl e
                     | Inr acc' \<Rightarrow> load_files cutoff csv_files acc')))"

definition load_data :: "datetime \<Rightarrow> int \<Rightarrow> directory
                         \<Rightarrow> pyerror + datetime list \<times> int list" where
  \<comment> \<open>\<open>now\<close> is the reading of the clock, the directory the content of \<open>DATA_DIR\<close>\<close>
  "load_data now hours d =
     (case sub_hours now hours of
        Inl e \<Rightarrow> Inl e
      | Inr cutoff \<Rightarrow> load_files cutoff (sorted_paths (glob_csv d)) ([], []))"




definition THRESHOLD :: int where
  "THRESHOLD = 140"

definition HOURS_TO_SHOW :: int where
  "HOURS_TO_SHOW = 96"

definition bar_color :: "int \<Rightarrow> string" where
  \<comment> \<open>one element of the list comprehension that builds \<open>colors\<close>\<close>
  "bar_color c = (if c \<ge> THRESHOLD then ''#e74c3c'' else ''#2ecc71'')"

definition colors :: "int list \<Rightarrow> string list" where
  "colors counts = map bar_color counts"


text \<open>
  The chart is what \<open>plot_chart\<close> hands to the plotting library: the bars with their
  colours, the threshold line and the statistics (minimum, maximum, and the sum and
  number of the counts, whose quotient the text shows rounded).  The file at
  \<open>OUTPUT_FILE\<close> is \<open>None\<close> while it does not exist.
\<close>

record chart =
  bar_x :: "datetime list"
  bar_height :: "int list"
  bar_color_of :: "string list"
  threshold_line :: int
  stats :: "int \<times> int \<times> int \<times> nat"

definition OUTPUT_FILE :: string where
  "OUTPUT_FILE = ''gym_load_chart.png''"

definition DATA_DIR :: string where
  "DATA_DIR = ''data''"

definition plot_chart :: "datetime list \<Rightarrow> int list \<Rightarrow> chart option \<Rightarrow> chart option \<times> string list" where
  \<comment> \<open>the file at \<open>OUTPUT_FILE\<close> before and after, and the printed lines; the two lists
      have one length, as \<open>load_data\<close> returns them\<close>
  "plot_chart timestamps counts out =
     (if timestamps = [] then (out, [''No data to plot''])
      else
        (Some \<lparr>bar_x = timestamps, bar_height = counts, bar_color_of = colors counts,
               threshold_line = THRESHOLD,
               stats = (Min (set counts), Max (set counts), sum_list counts, length counts)\<rparr>,
         [''Chart saved to: '' @ OUTPUT_FILE,
          ''Data points: '' @ str_nat (length counts),
          ''Time range: '' @ str_datetime (hd timestamps) @ '' to '' @ str_datetime (last timestamps)]))"

definition plot_main :: "datetime \<Rightarrow> directory option \<Rightarrow> chart option
                         \<Rightarrow> pyerror + chart option \<times> string list" where
  \<comment> \<open>\<open>main\<close> of the Reporter\<close>
  "plot_main now fs out =
     (case fs of
        None \<Rightarrow> Inr (out, [''Data directory not found: '' @ DATA_DIR,
                           ''Run fetch_gym_data.py first to collect data.''])
      | Some d \<Rightarrow>
          (case load_data now HOURS_TO_SHOW d of
             Inl e \<Rightarrow> Inl e
           | Inr (timestamps, counts) \<Rightarrow> Inr (plot_chart timestamps counts out)))"

section \<open>Properties\<close>

subsection \<open>Fetching\<close>

lemma raise_for_status_None_iff:
  "raise_for_status status reason = None \<longleftrightarrow> \<not> (400 \<le> status \<and> status < 600)"
  by (auto simp: raise_for_status_def)

lemma fetch_gym_load_reports:
  "fetch_gym_load (RequestFailed e) = ([''Error fetching data: '' @ e], Returned JNull)"
  "fetch_gym_load (Response status reason (NotJson e)) =
     (case raise_for_status status reason of
        Some h \<Rightarrow> ([''Error fetching data: '' @ h], Returned JNull)
      | None \<Rightarrow> ([''Error fetching data: '' @ e], Returned JNull))"
  by (simp_all add: fetch_gym_load_def split: option.splits)

text \<open>
  C2 (as amended).  A response whose status is outside 400..599 and whose body is a
  JSON object with an integer \<open>number\<close> makes \<open>fetch_gym_load\<close> return exactly that
  integer; such a response whose body is a JSON object without \<open>number\<close>, or whose body
  is not JSON, makes it return \<open>None\<close>; so does every response with a status from 400
  to 599, and every request that fails without a response.
\<close>

theorem fetch_gym_load_postcondition:
  assumes "\<not> (400 \<le> ok \<and> ok < 600)"
    and "400 \<le> bad \<and> bad < 600"
    and "map_of kvs ''number'' = Some (JInt n)"
    and "map_of kvs' ''number'' = None"
  shows "snd (fetch_gym_load (Response ok r (Json (JObj kvs)))) = Returned (JInt n)
       \<and> snd (fetch_gym_load (Response ok r (Json (JObj kvs')))) = Returned JNull
       \<and> snd (fetch_gym_load (Response ok r (NotJson e))) = Returned JNull
       \<and> snd (fetch_gym_load (Response bad r b)) = Returned JNull
       \<and> snd (fetch_gym_load (RequestFailed e)) = Returned JNull"
proof -
  have ok: "raise_for_status ok r = None"
    using assms(1) by (simp add: raise_for_status_None_iff)
  obtain h where bad: "raise_for_status bad r = Some h"
    using assms(2) raise_for_status_None_iff [of bad r] by (cases "raise_for_status bad r") auto
  show ?thesis
    using assms(3,4) by (simp add: fetch_gym_load_def ok bad dict_get_def)
qed

theorem fetch_gym_load_postcondition_witness:
  "\<not> (400 \<le> (200::nat) \<and> (200::nat) < 600) \<and> (400 \<le> (404::nat) \<and> (404::nat) < 600)
   \<and> map_of [(''number'', JInt 57)] ''number'' = Some (JInt 57)
   \<and> map_of [(''error'', JStr ''closed'')] ''number'' = None
   \<and> snd (fetch_gym_load (Response 200 ''OK'' (Json (JObj [(''number'', JInt 57)])))) = Returned (JInt 57)
   \<and> snd (fetch_gym_load (Response 200 ''OK'' (Json (JObj [(''error'', JStr ''closed'')])))) = Returned JNull
   \<and> snd (fetch_gym_load (Response 200 ''OK'' (NotJson ''Expecting value''))) = Returned JNull
   \<and> snd (fetch_gym_load (Response 404 ''Not Found'' (Json (JObj [(''number'', JInt 57)])))) = Returned JNull
   \<and> snd (fetch_gym_load (RequestFailed ''timed out'')) = Returned JNull"
  using fetch_gym_load_postcondition [of 200 404 "[(''number'', JInt 57)]" 57
      "[(''error'', JStr ''closed'')]" "''OK''" "''Expecting value''"]
    fetch_gym_load_postcondition [of 200 404 "[(''number'', JInt 57)]" 57
      "[(''error'', JStr ''closed'')]" "''Not Found''" "''timed out''"
      "Json (JObj [(''number'', JInt 57)])"]
  by simp

text \<open>
  C2 as stated fails twice: a body that is valid JSON but not an object has no
  \<open>number\<close> field, and the call ends with an \<open>AttributeError\<close> instead of returning
  \<open>None\<close>; and a status that is neither 2xx nor 4xx/5xx is not an error for
  \<open>raise_for_status\<close>, so the number of the body is returned.
\<close>

theorem fetch_gym_load_counterexample:
  "snd (fetch_gym_load (Response 200 ''OK'' (Json (JArr [])))) = Raised AttributeError
   \<and> snd (fetch_gym_load (Response 300 ''Multiple Choices''
        (Json (JObj [(''number'', JInt 57)])))) = Returned (JInt 57)"
  by (simp add: fetch_gym_load_def raise_for_status_def dict_get_def)

text \<open>
  C7 at its failing inputs.  The body \<open>null\<close> is a malformed response: nothing is
  printed and the \<open>AttributeError\<close> leaves \<open>fetch_gym_load\<close>, which \<open>main\<close> calls
  without a handler.  An object without \<open>number\<close> yields no reading, and
  \<open>fetch_gym_load\<close> prints nothing about it.
\<close>

theorem fetch_gym_load_failure_escapes:
  "fetch_gym_load (Response 200 ''OK'' (Json JNull)) = ([], Raised AttributeError)
   \<and> fetch_gym_load (Response 200 ''OK'' (Json (JObj []))) = ([], Returned JNull)"
  by (simp add: fetch_gym_load_def raise_for_status_def dict_get_def)

subsection \<open>Colours\<close>


subsection \<open>Text and the csv writer\<close>

lemma of_char_digit_char: "n < 10 \<Longrightarrow> (of_char (digit_char n) :: nat) = 48 + n"
proof -
  assume "n < 10"
  then have "n \<in> {0, 1, 2, 3, 4, 5, 6, 7, 8, 9}" by auto
  then show ?thesis by (auto simp: digit_char_def)
qed

lemma is_digit_digit_char: "n < 10 \<Longrightarrow> is_digit (digit_char n)"
  by (simp add: is_digit_def of_char_digit_char Let_def)

lemma digit_val_digit_char: "n < 10 \<Longrightarrow> digit_val (digit_char n) = n"
  by (simp add: digit_val_def of_char_digit_char)

lemma is_digit_not_special: "is_digit c \<Longrightarrow> \<not> special c"
  by (auto simp: is_digit_def special_def COMMA_def QUOTE_def CR_def LF_def Let_def)

lemma is_digit_neq:
  "is_digit c \<Longrightarrow> c \<noteq> CHR ''-'' \<and> c \<noteq> CHR '':'' \<and> c \<noteq> CHR ''.'' \<and> c \<noteq> CHR ''_'' \<and> c \<noteq> CHR ''+'' \<and> c \<noteq> CR \<and> c \<noteq> LF \<and> c \<noteq> COMMA \<and> c \<noteq> QUOTE \<and> \<not> is_space c"
  by (auto simp: is_digit_def CR_def LF_def COMMA_def QUOTE_def is_space_def Let_def)

lemma str_nat_digits: "list_all is_digit (str_nat n)"
proof (induction n rule: str_nat.induct)
  case (1 n)
  show ?case
  proof (cases "n < 10")
    case True
    then show ?thesis by (subst str_nat.simps) (simp add: is_digit_digit_char)
  next
    case False
    with 1 show ?thesis by (subst str_nat.simps) (simp add: is_digit_digit_char)
  qed
qed

lemma str_nat_nonempty: "str_nat n \<noteq> []"
  by (subst str_nat.simps) simp

lemma pad2_digits: "list_all is_digit (pad2 n)"
  by (simp add: pad2_def is_digit_digit_char)

lemma pad4_digits: "list_all is_digit (pad4 n)"
  by (simp add: pad4_def is_digit_digit_char)

definition plain :: "char \<Rightarrow> bool" where
  "plain c = (\<not> special c)"

lemma csv_field_plain: "list_all plain s \<Longrightarrow> csv_field s = s"
  by (simp add: csv_field_def plain_def list_all_iff list_ex_iff)

lemma digits_plain: "list_all is_digit s \<Longrightarrow> list_all plain s"
  by (simp add: list_all_iff plain_def is_digit_not_special)

lemma plain_str_time: "list_all plain (str_time t)"
  by (simp add: str_time_def digits_plain pad2_digits)
    (simp add: plain_def special_def COMMA_def QUOTE_def CR_def LF_def)

lemma plain_str_int: "list_all plain (str_int c)"
  by (simp add: str_int_def digits_plain str_nat_digits)
    (simp add: plain_def special_def COMMA_def QUOTE_def CR_def LF_def)

lemma writerow_reading:
  "writerow [str_time t, str_int c] = str_time t @ '','' @ str_int c @ [CR, LF]"
  by (simp add: writerow_def csv_field_plain plain_str_time plain_str_int COMMA_def)

lemma writerow_header: "writerow [''time'', ''count''] = ''time,count'' @ [CR, LF]"
  by (simp add: writerow_def csv_field_def special_def COMMA_def QUOTE_def CR_def LF_def)

lemma map_of_update: "map_of (AList.update k v d) k = Some v"
  by (simp add: update_conv')

lemma readlines_body:
  "list_all (\<lambda>c. c \<noteq> CR \<and> c \<noteq> LF) b \<Longrightarrow>
   readlines cur (b @ CR # LF # rest) = (cur @ b @ [CR, LF]) # readlines [] rest"
proof (induction b arbitrary: cur)
  case Nil
  show ?case by (simp add: CR_def LF_def)
next
  case (Cons c b)
  obtain d ds where eq: "b @ CR # LF # rest = d # ds"
    by (cases "b @ CR # LF # rest") auto
  have "readlines cur (c # d # ds) = readlines (cur @ [c]) (d # ds)"
    using Cons.prems by simp
  then show ?case
    using Cons.IH [of "cur @ [c]"] Cons.prems eq by simp
qed

lemma plain_no_break: "list_all plain s \<Longrightarrow> list_all (\<lambda>c. c \<noteq> CR \<and> c \<noteq> LF) s"
  by (auto simp: list_all_iff plain_def special_def)

definition csv_line :: "datetime \<Rightarrow> int \<Rightarrow> string" where
  "csv_line t c = str_time t @ '','' @ str_int c"

lemma plain_csv_line: "list_all (\<lambda>c. c \<noteq> CR \<and> c \<noteq> LF) (csv_line t c)"
  using plain_no_break [OF plain_str_time, of t] plain_no_break [OF plain_str_int, of c]
  by (simp add: csv_line_def CR_def LF_def)

text \<open>
  C3.  Two record operations on a partition file that does not exist yet (both on
  the date of that partition) leave a file with exactly three lines: the header
  \<open>time,count\<close>, then the line of the first reading, then the line of the second.
\<close>

theorem header_idempotence:
  assumes "date_part now2 = date_part now1"
    and "map_of (mkdir fs) (str_date (date_part now1) @ ''.csv'') = None"
  shows "map_of (fst (save_to_csv now2 c2 (Some (fst (save_to_csv now1 c1 fs)))))
           (str_date (date_part now1) @ ''.csv'')
         = Some (''time,count'' @ [CR, LF] @ str_time now1 @ '','' @ str_int c1 @ [CR, LF]
                 @ str_time now2 @ '','' @ str_int c2 @ [CR, LF])
       \<and> readlines [] (''time,count'' @ [CR, LF] @ str_time now1 @ '','' @ str_int c1 @ [CR, LF]
                 @ str_time now2 @ '','' @ str_int c2 @ [CR, LF])
         = [''time,count'' @ [CR, LF], str_time now1 @ '','' @ str_int c1 @ [CR, LF],
            str_time now2 @ '','' @ str_int c2 @ [CR, LF]]"
proof -
  let ?p = "str_date (date_part now1) @ ''.csv''"
  let ?c1 = "''time,count'' @ [CR, LF] @ csv_line now1 c1 @ [CR, LF]"
  let ?d1 = "fst (save_to_csv now1 c1 fs)"
  have d1: "?d1 = AList.update ?p ?c1 (mkdir fs)"
    using assms(2) by (simp add: save_to_csv_def Let_def writerow_header writerow_reading csv_line_def)
  have m1: "map_of ?d1 ?p = Some ?c1"
    by (simp only: d1 map_of_update)
  let ?c2 = "?c1 @ csv_line now2 c2 @ [CR, LF]"
  have m2: "map_of (fst (save_to_csv now2 c2 (Some ?d1))) ?p = Some ?c2"
    using m1 assms(1)
    by (simp add: save_to_csv_def Let_def mkdir_def writerow_reading map_of_update csv_line_def)
  have hdr: "list_all (\<lambda>c. c \<noteq> CR \<and> c \<noteq> LF) ''time,count''"
    by (simp add: CR_def LF_def)
  have "readlines [] (''time,count'' @ CR # LF # csv_line now1 c1 @ CR # LF # csv_line now2 c2 @ CR # LF # [])
        = [''time,count'' @ [CR, LF], csv_line now1 c1 @ [CR, LF], csv_line now2 c2 @ [CR, LF]]"
    by (simp add: readlines_body [OF hdr] readlines_body [OF plain_csv_line]
        del: append.simps list.simps)
  then have "readlines [] ?c2 =
      [''time,count'' @ [CR, LF], csv_line now1 c1 @ [CR, LF], csv_line now2 c2 @ [CR, LF]]"
    by simp
  with m2 show ?thesis
    by (simp add: csv_line_def)
qed

theorem header_idempotence_witness:
  "map_of (fst (save_to_csv
        \<lparr>date_part = \<lparr>year = 2024, month = 3, day = 5\<rparr>, hour = 9, minute = 17,
         second = 2, microsecond = 0\<rparr> 140
        (Some (fst (save_to_csv
           \<lparr>date_part = \<lparr>year = 2024, month = 3, day = 5\<rparr>, hour = 9, minute = 7,
            second = 33, microsecond = 120\<rparr> 57 None)))))
     ''2024-03-05.csv''
   = Some (''time,count'' @ [CR, LF] @ ''09:07,57'' @ [CR, LF] @ ''09:17,140'' @ [CR, LF])"
proof -
  let ?t1 = "\<lparr>date_part = \<lparr>year = 2024, month = 3, day = 5\<rparr>, hour = 9, minute = 7,
            second = 33, microsecond = 120\<rparr>"
  let ?t2 = "\<lparr>date_part = \<lparr>year = 2024, month = 3, day = 5\<rparr>, hour = 9, minute = 17,
         second = 2, microsecond = 0\<rparr>"
  have h1: "date_part ?t2 = date_part ?t1" by simp
  have h2: "map_of (mkdir None) (str_date (date_part ?t1) @ ''.csv'') = None"
    by (simp add: mkdir_def)
  have s: "str_date \<lparr>year = 2024, month = 3, day = 5\<rparr> = ''2024-03-05''" "str_time ?t1 = ''09:07''"
    "str_time ?t2 = ''09:17''" "str_int 57 = ''57''" "str_int 140 = ''140''"
    by (simp_all add: str_date_def str_time_def str_int_def pad2_def pad4_def digit_char_def
        str_nat.simps)
  show ?thesis
    using header_idempotence [OF h1 h2, of 140 57, THEN conjunct1] by (simp add: s)
qed

subsection \<open>The parallel lists of \<open>load_data\<close>\<close>

text \<open>
  \<open>from_same_row cutoff d dt c\<close>: some row of some file of \<open>d\<close> is kept by the row
  loop with the timestamp \<open>dt\<close> and the count \<open>c\<close>.
\<close>

definition from_same_row :: "instant \<Rightarrow> directory \<Rightarrow> datetime \<Rightarrow> int \<Rightarrow> bool" where
  "from_same_row cutoff d dt c =
     list_ex (\<lambda>(name, content).
        case strptime_date (stem name) of
          None \<Rightarrow> False
        | Some file_date \<Rightarrow>
            (case DictReader content of
               Inl e \<Rightarrow> False
             | Inr rows \<Rightarrow> list_ex (\<lambda>r. load_row cutoff file_date r = Keep dt c) rows)) d"

lemma load_rows_all2:
  assumes "load_rows cutoff fd rows (ts, cs) = Inr (ts', cs')"
    and "list_all2 P ts cs"
    and "\<And>r dt c. r \<in> set rows \<Longrightarrow> load_row cutoff fd r = Keep dt c \<Longrightarrow> P dt c"
  shows "list_all2 P ts' cs'"
  using assms
proof (induction rows arbitrary: ts cs)
  case Nil
  then show ?case by simp
next
  case (Cons r rows)
  show ?case
  proof (cases "load_row cutoff fd r")
    case Skip
    with Cons.prems(1) have a: "load_rows cutoff fd rows (ts, cs) = Inr (ts', cs')" by simp
    show ?thesis
      by (rule Cons.IH [OF a Cons.prems(2)]) (rule Cons.prems(3), simp_all)
  next
    case (Keep dt c)
    with Cons.prems(1) have a: "load_rows cutoff fd rows (ts @ [dt], cs @ [c]) = Inr (ts', cs')"
      by simp
    have "P dt c"
      by (rule Cons.prems(3) [OF _ Keep]) simp
    then have b: "list_all2 P (ts @ [dt]) (cs @ [c])"
      using Cons.prems(2) by (simp add: list_all2_appendI)
    show ?thesis
      by (rule Cons.IH [OF a b]) (rule Cons.prems(3), simp_all)
  next
    case (Crash e)
    with Cons.prems(1) show ?thesis by simp
  qed
qed

lemma from_same_rowI:
  "(name, content) \<in> set d \<Longrightarrow> strptime_date (stem name) = Some fd \<Longrightarrow>
   DictReader content = Inr rows \<Longrightarrow> r \<in> set rows \<Longrightarrow> load_row cutoff fd r = Keep dt c \<Longrightarrow>
   from_same_row cutoff d dt c"
  unfolding from_same_row_def list_ex_iff by force

lemma load_files_all2:
  assumes "load_files cutoff fs (ts, cs) = Inr (ts', cs')"
    and "list_all2 (from_same_row cutoff d) ts cs"
    and "set fs \<subseteq> set d"
  shows "list_all2 (from_same_row cutoff d) ts' cs'"
  using assms
proof (induction fs arbitrary: ts cs)
  case Nil
  then show ?case by simp
next
  case (Cons f fs)
  obtain name content where f: "f = (name, content)" by (cases f)
  have sub: "set fs \<subseteq> set d" and mem: "(name, content) \<in> set d"
    using Cons.prems(3) f by auto
  show ?case
  proof (cases "strptime_date (stem name)")
    case None
    with Cons.prems(1) f have "load_files cutoff fs (ts, cs) = Inr (ts', cs')" by simp
    then show ?thesis using Cons.IH Cons.prems(2) sub by simp
  next
    case (Some fd)
    show ?thesis
    proof (cases "sub_days (ordinal_of cutoff) 1")
      case (Inl e)
      with Cons.prems(1) f Some show ?thesis by simp
    next
      case (Inr oldest)
      show ?thesis
      proof (cases "toordinal fd < oldest")
        case True
        with Cons.prems(1) f Some Inr have "load_files cutoff fs (ts, cs) = Inr (ts', cs')"
          by simp
        then show ?thesis using Cons.IH Cons.prems(2) sub by simp
      next
        case False
        with Cons.prems(1) f Some Inr obtain rows ts1 cs1 where
          rows: "DictReader content = Inr rows"
          and one: "load_rows cutoff fd rows (ts, cs) = Inr (ts1, cs1)"
          and rest: "load_files cutoff fs (ts1, cs1) = Inr (ts', cs')"
          by (auto simp: load_file_def split: sum.splits)
        have "list_all2 (from_same_row cutoff d) ts1 cs1"
          using one Cons.prems(2)
          by (rule load_rows_all2) (rule from_same_rowI [OF mem Some rows])
        then show ?thesis using Cons.IH rest sub by simp
      qed
    qed
  qed
qed

lemma set_sorted_paths_glob: "set (sorted_paths (glob_csv d)) \<subseteq> set d"
  by (auto simp: sorted_paths_def glob_csv_def)

lemma load_data_from_rows:
  assumes "load_data now hours d = Inr (timestamps, counts)"
  shows "length timestamps = length counts
       \<and> (\<exists>cutoff. sub_hours now hours = Inr cutoff
            \<and> list_all2 (from_same_row cutoff d) timestamps counts)"
proof -
  from assms obtain cutoff where c: "sub_hours now hours = Inr cutoff"
    and l: "load_files cutoff (sorted_paths (glob_csv d)) ([], []) = Inr (timestamps, counts)"
    by (auto simp: load_data_def split: sum.splits)
  have "list_all2 (from_same_row cutoff d) timestamps counts"
    using l by (rule load_files_all2) (simp_all add: set_sorted_paths_glob)
  then show ?thesis using c by (auto dest: list_all2_lengthD)
qed

text \<open>
  C10.  Whenever \<open>load_data\<close> returns, its two lists have the same length, and at
  every index the timestamp and the count are the ones a single row of a single file
  of the directory was kept with: \<open>load_rows\<close> appends to both lists or to neither.
\<close>

theorem parallel_lists:
  assumes "load_data now hours d = Inr (timestamps, counts)"
  shows "length timestamps = length counts
       \<and> (\<exists>cutoff. sub_hours now hours = Inr cutoff
            \<and> list_all2 (from_same_row cutoff d) timestamps counts)"
  using assms by (rule load_data_from_rows)

subsection \<open>A worked example\<close>

text \<open>
  One partition with one reading, loaded shortly after the next midnight.
\<close>

lemmas reader_defs = csv_reader_def process_line_def parse_process_char_def start_field_def
  end_of_line_def is_break_def parse_save_field_def parse_add_char_def parse_reset_def
  CR_def LF_def COMMA_def QUOTE_def

lemmas calendar_defs = toordinal_def days_before_year_def days_before_month_def
  days_in_month_def is_leap_def upt_rec

definition march5 :: date where
  "march5 = \<lparr>year = 2024, month = 3, day = 5\<rparr>"

definition midnight6 :: datetime where
  "midnight6 = \<lparr>date_part = \<lparr>year = 2024, month = 3, day = 6\<rparr>, hour = 0, minute = 0,
                 second = 2, microsecond = 0\<rparr>"

definition one_row_file :: string where
  "one_row_file = ''time,count'' @ [CR, LF] @ ''10:00,5'' @ [CR, LF]"

lemma ex_rows: "DictReader one_row_file = Inr [[(''count'', Some ''5''), (''time'', Some ''10:00'')]]"
  by (simp add: one_row_file_def reader_defs DictReader_def row_dict_def)

lemma ex_ordinal: "toordinal march5 = 738950"
  by (simp add: march5_def calendar_defs)

lemma ex_cutoff: "sub_hours midnight6 96 = Inr 63845020802000000"
  by (simp add: midnight6_def sub_hours_def to_us_def us_per_day_def ordinal_of_def
      MAXORDINAL_def calendar_defs Let_def)

lemma ex_int: "py_int ''5'' = Some 5"
  by (simp add: py_int_def strip_def is_space_def digits_val_def digit_val_def is_digit_def Let_def)

lemma ex_time: "strptime_time ''10:00'' = Some (10, 0)"
  by (simp add: strptime_time_def hour_of_def minute_of_def is_space_def digit_val_def
      is_digit_def two_def Let_def)

lemma ex_to_us:
  "to_us \<lparr>date_part = march5, hour = 10, minute = 0, second = 0, microsecond = 0\<rparr>
   = 63845316000000000"
  by (simp add: to_us_def us_per_day_def ex_ordinal)

lemma ex_row:
  "load_row 63845020802000000 march5 [(''count'', Some ''5''), (''time'', Some ''10:00'')]
   = Keep \<lparr>date_part = march5, hour = 10, minute = 0, second = 0, microsecond = 0\<rparr> 5"
  by (simp add: load_row_def ex_int py_str_def ex_time ex_to_us)

lemma ex_name: "strptime_date (stem ''2024-03-05.csv'') = Some march5"
  by (simp add: stem_def strptime_date_def year_of_def month_of_def day_of_def is_digit_def
      digits_val_def digit_val_def two_def days_in_month_def is_leap_def march5_def Let_def)

lemma ex_oldest: "sub_days (ordinal_of 63845020802000000) 1 = Inr 738946"
  by (simp add: sub_days_def ordinal_of_def us_per_day_def MAXORDINAL_def)

lemma ex_glob: "sorted_paths (glob_csv [(''2024-03-05.csv'', c)]) = [(''2024-03-05.csv'', c)]"
  by (simp add: sorted_paths_def glob_csv_def)

lemma ex_load:
  "load_data midnight6 96 [(''2024-03-05.csv'', one_row_file)]
   = Inr ([\<lparr>date_part = march5, hour = 10, minute = 0, second = 0, microsecond = 0\<rparr>], [5])"
  by (simp add: load_data_def ex_cutoff ex_glob ex_name ex_oldest ex_ordinal load_file_def
      ex_rows ex_row)

theorem parallel_lists_witness:
  "load_data midnight6 96 [(''2024-03-05.csv'', one_row_file)]
     = Inr ([\<lparr>date_part = march5, hour = 10, minute = 0, second = 0, microsecond = 0\<rparr>], [5])
   \<and> length [\<lparr>date_part = march5, hour = 10, minute = 0, second = 0, microsecond = 0\<rparr>]
       = length [5::int]
   \<and> (\<exists>cutoff. sub_hours midnight6 96 = Inr cutoff
        \<and> list_all2 (from_same_row cutoff [(''2024-03-05.csv'', one_row_file)])
             [\<lparr>date_part = march5, hour = 10, minute = 0, second = 0, microsecond = 0\<rparr>] [5])"
  using parallel_lists [OF ex_load] ex_load by simp

subsection \<open>The empty series\<close>

lemma glob_csv_Nil: "glob_csv [] = []"
  by (simp add: glob_csv_def)

lemma load_data_no_files:
  "sub_hours now hours = Inr cutoff \<Longrightarrow> glob_csv d = [] \<Longrightarrow> load_data now hours d = Inr ([], [])"
  by (simp add: load_data_def sorted_paths_def)

text \<open>
  C8.  With a representable cutoff, a directory without files (or without csv files)
  loads as two empty lists, and so does every directory none of whose rows is kept
  for the window, whenever the load returns; \<open>plot_chart\<close> on an empty series prints
  "No data to plot" and leaves the file at \<open>OUTPUT_FILE\<close> as it was, absent or not.
\<close>

theorem empty_series:
  assumes "sub_hours now hours = Inr cutoff"
  shows "load_data now hours [] = Inr ([], [])
       \<and> (glob_csv d = [] \<longrightarrow> load_data now hours d = Inr ([], []))
       \<and> (load_data now hours d = Inr (timestamps, counts)
            \<and> (\<forall>dt c. \<not> from_same_row cutoff d dt c) \<longrightarrow> timestamps = [] \<and> counts = [])
       \<and> plot_chart [] counts' out = (out, [''No data to plot''])
       \<and> (hours = HOURS_TO_SHOW \<longrightarrow> plot_main now (Some []) out = Inr (out, [''No data to plot'']))"
proof -
  have a: "load_data now hours [] = Inr ([], [])"
    using assms by (simp add: load_data_no_files glob_csv_Nil)
  have b: "glob_csv d = [] \<longrightarrow> load_data now hours d = Inr ([], [])"
    using assms by (simp add: load_data_no_files)
  have c: "timestamps = [] \<and> counts = []"
    if l: "load_data now hours d = Inr (timestamps, counts)"
      and n: "\<forall>dt c. \<not> from_same_row cutoff d dt c"
  proof -
    from load_data_from_rows [OF l] assms
    have len: "length timestamps = length counts"
      and all: "list_all2 (from_same_row cutoff d) timestamps counts"
      by auto
    have "timestamps = []"
    proof (cases timestamps)
      case Nil then show ?thesis .
    next
      case (Cons t ts)
      with all obtain c cs where "counts = c # cs" "from_same_row cutoff d t c"
        by (auto simp: list_all2_Cons1)
      with n show ?thesis by blast
    qed
    with len show ?thesis by simp
  qed
  have d: "plot_chart [] counts' out = (out, [''No data to plot''])"
    by (simp add: plot_chart_def)
  have e: "hours = HOURS_TO_SHOW \<longrightarrow> plot_main now (Some []) out = Inr (out, [''No data to plot''])"
    using a by (auto simp: plot_main_def plot_chart_def)
  from a b c d e show ?thesis by blast
qed

theorem empty_series_witness:
  "sub_hours midnight6 96 = Inr 63845020802000000
   \<and> load_data midnight6 96 [] = Inr ([], [])
   \<and> plot_chart [] [] None = (None, [''No data to plot''])
   \<and> plot_main midnight6 (Some []) None = Inr (None, [''No data to plot''])"
  using empty_series [OF ex_cutoff, of "[]" "[]" "[]" "[]" None] ex_cutoff
  by (simp add: HOURS_TO_SHOW_def glob_csv_Nil)

subsection \<open>The date pre-filter\<close>












lemma unparseable_row_skipped:
  assumes "map_of r ''time'' = Some t" and "map_of r ''count'' = Some (Some s)"
    and "py_int s = None \<or> strptime_time (py_str t) = None"
  shows "load_row cutoff fd r = Skip"
  using assms by (auto simp: load_row_def split: option.splits)

subsection \<open>Malformed rows and old partitions at concrete inputs\<close>

definition truncated_file :: string where
  "truncated_file = ''time,count'' @ [CR, LF] @ ''10:00,5'' @ [CR, LF] @ ''10:1''"

definition bad_count_file :: string where
  "bad_count_file = ''time,count'' @ [CR, LF] @ ''10:00,5'' @ [CR, LF] @ ''10:10,abc'' @ [CR, LF]"


lemma ex_truncated_rows:
  "DictReader truncated_file
   = Inr [[(''count'', Some ''5''), (''time'', Some ''10:00'')],
          [(''count'', None), (''time'', Some ''10:1'')]]"
  by (simp add: truncated_file_def reader_defs DictReader_def row_dict_def)

lemma ex_bad_count_rows:
  "DictReader bad_count_file
   = Inr [[(''count'', Some ''5''), (''time'', Some ''10:00'')],
          [(''count'', Some ''abc''), (''time'', Some ''10:10'')]]"
  by (simp add: bad_count_file_def reader_defs DictReader_def row_dict_def)

lemma ex_short_row:
  "load_row cutoff fd [(''count'', None), (''time'', Some ''10:1'')] = Crash TypeError"
  by (simp add: load_row_def)

lemma ex_not_int: "py_int ''abc'' = None"
  by (simp add: py_int_def strip_def is_space_def is_digit_def Let_def)

lemma ex_bad_row:
  "load_row cutoff fd [(''count'', Some ''abc''), (''time'', Some ''10:10'')] = Skip"
  by (simp add: load_row_def ex_not_int)




lemma ex_load_truncated:
  "load_data midnight6 96 [(''2024-03-05.csv'', truncated_file)] = Inl TypeError"
  by (simp add: load_data_def ex_cutoff ex_glob ex_name ex_oldest ex_ordinal load_file_def
      ex_truncated_rows ex_row ex_short_row)

lemma ex_load_bad_count:
  "load_data midnight6 96 [(''2024-03-05.csv'', bad_count_file)]
   = Inr ([\<lparr>date_part = march5, hour = 10, minute = 0, second = 0, microsecond = 0\<rparr>], [5])"
  by (simp add: load_data_def ex_cutoff ex_glob ex_name ex_oldest ex_ordinal load_file_def
      ex_bad_count_rows ex_row ex_bad_row)




text \<open>
  C4 at its failing input.  A partition whose last line was cut before the comma has
  a row without a count; \<open>int(None)\<close> raises a \<open>TypeError\<close>, which the handler of the
  row loop does not catch, and the whole load is lost.  A row whose count is present
  but not a number is skipped, and the well-formed row is returned.
\<close>

theorem truncated_row_aborts_load:
  "load_data midnight6 96 [(''2024-03-05.csv'', truncated_file)] = Inl TypeError
   \<and> load_data midnight6 96 [(''2024-03-05.csv'', bad_count_file)]
     = Inr ([\<lparr>date_part = march5, hour = 10, minute = 0, second = 0, microsecond = 0\<rparr>], [5])"
  using ex_load_truncated ex_load_bad_count by simp

subsection \<open>The calendar\<close>










subsection \<open>The order of file names\<close>


lemma digit_char_eq: "i < 10 \<Longrightarrow> j < 10 \<Longrightarrow> (digit_char i = digit_char j) = (i = j)"
proof
  assume "i < 10" "j < 10" "digit_char i = digit_char j"
  then have "(of_char (digit_char i) :: nat) = of_char (digit_char j)" by simp
  with \<open>i < 10\<close> \<open>j < 10\<close> show "i = j" by (simp add: of_char_digit_char)
qed simp







subsection \<open>Dates read from file names\<close>


lemma digit_val_simps:
  "digit_val (CHR ''0'') = 0" "digit_val (CHR ''1'') = 1" "digit_val (CHR ''2'') = 2"
  "digit_val (CHR ''3'') = 3"
  by (simp_all add: digit_val_def)





subsection \<open>The order of the loaded series\<close>
































subsection \<open>Reading back what the Collector formats\<close>

lemma split10: "(n::nat) = 10 * (n div 10) + n mod 10"
  by simp

lemma digit_char_neq_0: "0 < i \<Longrightarrow> i < 10 \<Longrightarrow> digit_char i \<noteq> CHR ''0''"
  using digit_char_eq [of i 0] by (simp add: digit_char_def)

lemma digit_char_small:
  "digit_char 0 = CHR ''0''" "digit_char 1 = CHR ''1''" "digit_char 2 = CHR ''2''"
  "digit_char 3 = CHR ''3''" "digit_char (Suc 0) = CHR ''1''"
  by (simp_all add: digit_char_def)

lemma digit_val_small:
  "digit_val (CHR ''4'') = 4" "digit_val (CHR ''5'') = 5"
  by (simp_all add: digit_val_def)

lemma minute_of_digits:
  "q < 6 \<Longrightarrow> r < 10 \<Longrightarrow> minute_of [digit_char q, digit_char r] = Some (10 * q + r)"
  by (simp add: minute_of_def is_digit_digit_char digit_val_digit_char two_def)

lemma hour_of_digits:
  assumes "q < 3" "r < 10" "q = 2 \<longrightarrow> r \<le> 3"
  shows "hour_of [digit_char q, digit_char r] = Some (10 * q + r)"
proof -
  from assms(1) have "q = 0 \<or> q = 1 \<or> q = 2" by auto
  then show ?thesis
    using assms(2,3)
    by (elim disjE)
      (simp_all add: hour_of_def digit_char_small is_digit_digit_char digit_val_digit_char
        two_def digit_val_simps)
qed

lemma month_of_digits:
  assumes "q < 2" "r < 10" "q = 0 \<longrightarrow> 0 < r" "q = 1 \<longrightarrow> r \<le> 2"
  shows "month_of [digit_char q, digit_char r] = Some (10 * q + r)"
proof -
  from assms(1) have "q = 0 \<or> q = 1" by auto
  then show ?thesis
    using assms(2,3,4) digit_char_neq_0 [of r]
    by (elim disjE)
      (simp_all add: month_of_def digit_char_small is_digit_digit_char digit_val_digit_char
        two_def digit_val_simps)
qed

lemma day_of_digits:
  assumes "q < 4" "r < 10" "q = 0 \<longrightarrow> 0 < r" "q = 3 \<longrightarrow> r \<le> 1"
  shows "day_of [digit_char q, digit_char r] = Some (10 * q + r)"
proof -
  from assms(1) have "q = 0 \<or> q = 1 \<or> q = 2 \<or> q = 3" by auto
  then show ?thesis
    using assms(2,3,4) digit_char_neq_0 [of r]
    by (elim disjE)
      (simp_all add: day_of_def digit_char_small is_digit_digit_char digit_val_digit_char
        two_def digit_val_simps)
qed

lemma pad2_digits2: "n < 100 \<Longrightarrow> pad2 n = [digit_char (n div 10), digit_char (n mod 10)]"
  by (simp add: pad2_def)

lemma minute_of_pad2: "n < 60 \<Longrightarrow> minute_of (pad2 n) = Some n"
proof -
  assume n: "n < 60"
  then have "n div 10 < 6" by simp
  then show ?thesis using n by (simp add: pad2_digits2 minute_of_digits)
qed

lemma hour_of_pad2: "n < 24 \<Longrightarrow> hour_of (pad2 n) = Some n"
proof -
  assume n: "n < 24"
  have "n div 10 < 3" "n div 10 = 2 \<longrightarrow> n mod 10 \<le> 3"
    using n split10 [of n] by linarith+
  then show ?thesis using n by (simp add: pad2_digits2 hour_of_digits)
qed

lemma month_of_pad2: "1 \<le> n \<Longrightarrow> n \<le> 12 \<Longrightarrow> month_of (pad2 n) = Some n"
proof -
  assume n: "1 \<le> n" "n \<le> 12"
  have "n div 10 < 2" "n div 10 = 0 \<longrightarrow> 0 < n mod 10" "n div 10 = 1 \<longrightarrow> n mod 10 \<le> 2"
    using n split10 [of n] by linarith+
  then show ?thesis using n by (simp add: pad2_digits2 month_of_digits)
qed

lemma day_of_pad2: "1 \<le> n \<Longrightarrow> n \<le> 31 \<Longrightarrow> day_of (pad2 n) = Some n"
proof -
  assume n: "1 \<le> n" "n \<le> 31"
  have "n div 10 < 4" "n div 10 = 0 \<longrightarrow> 0 < n mod 10" "n div 10 = 3 \<longrightarrow> n mod 10 \<le> 1"
    using n split10 [of n] by linarith+
  then show ?thesis using n by (simp add: pad2_digits2 day_of_digits)
qed

lemma year_of_pad4:
  assumes "n < 10000"
  shows "year_of (pad4 n) = Some n"
proof -
  have a: "n div 1000 mod 10 = n div 1000" "n div 1000 < 10" using assms by simp_all
  have d: "n div 10 div 10 = n div 100" "n div 100 div 10 = n div 1000"
    by (simp_all add: div_mult2_eq)
  define q1 q2 q3 r0 r1 r2 where "q1 = n div 10" and "q2 = n div 100" and "q3 = n div 1000"
    and "r0 = n mod 10" and "r1 = n div 10 mod 10" and "r2 = n div 100 mod 10"
  have "n = 10 * q1 + r0" "q1 = 10 * q2 + r1" "q2 = 10 * q3 + r2"
    using split10 [of n] split10 [of "n div 10"] split10 [of "n div 100"]
    unfolding d q1_def q2_def q3_def r0_def r1_def r2_def by simp_all
  then have "((q3 * 10 + r2) * 10 + r1) * 10 + r0 = n"
    by simp
  then have "((n div 1000 * 10 + n div 100 mod 10) * 10 + n div 10 mod 10) * 10 + n mod 10 = n"
    unfolding q3_def r0_def r1_def r2_def .
  then have "digits_val (pad4 n) = n"
    by (simp add: digits_val_def pad4_def digit_val_digit_char a mult.commute)
  then show ?thesis
    by (simp add: year_of_def) (simp add: pad4_def is_digit_digit_char)
qed

lemma no_dash_pad2: "takeWhile (\<lambda>c. c \<noteq> CHR ''-'') (pad2 n @ CHR ''-'' # s) = pad2 n"
  "dropWhile (\<lambda>c. c \<noteq> CHR ''-'') (pad2 n @ CHR ''-'' # s) = CHR ''-'' # s"
  using pad2_digits [of n] by (auto simp: pad2_def dest: is_digit_neq)

lemma no_colon_pad2: "takeWhile (\<lambda>c. c \<noteq> CHR '':'') (pad2 n @ CHR '':'' # s) = pad2 n"
  "dropWhile (\<lambda>c. c \<noteq> CHR '':'') (pad2 n @ CHR '':'' # s) = CHR '':'' # s"
  using pad2_digits [of n] by (auto simp: pad2_def dest: is_digit_neq)

lemma strptime_date_str_date:
  assumes "valid_date d"
  shows "strptime_date (str_date d) = Some d"
proof -
  have r: "1 \<le> year d" "year d < 10000" "1 \<le> month d" "month d \<le> 12" "1 \<le> day d"
    "day d \<le> 31" "day d \<le> days_in_month (year d) (month d)"
    using assms by (auto simp: valid_date_def days_in_month_def split: if_splits)
  have s: "str_date d = pad4 (year d) @ CHR ''-'' # pad2 (month d) @ CHR ''-'' # pad2 (day d)"
    by (simp add: str_date_def)
  have p: "length (pad4 (year d)) = 4" by (simp add: pad4_def)
  have t: "take 4 (str_date d) = pad4 (year d)"
    "drop 5 (str_date d) = pad2 (month d) @ CHR ''-'' # pad2 (day d)"
    "str_date d ! 4 = CHR ''-''" "\<not> length (str_date d) < 5"
    unfolding s by (simp_all add: p nth_append)
  have y: "year_of (pad4 (year d)) = Some (year d)" using r by (intro year_of_pad4)
  have m: "month_of (pad2 (month d)) = Some (month d)" using r by (intro month_of_pad2)
  have dd: "day_of (pad2 (day d)) = Some (day d)" using r by (intro day_of_pad2)
  show ?thesis
    unfolding strptime_date_def t no_dash_pad2 Let_def
    using r t(4) by (simp add: y m dd)
qed

lemma strptime_time_str_time:
  assumes "hour t < 24" "minute t < 60"
  shows "strptime_time (str_time t) = Some (hour t, minute t)"
proof -
  have s: "str_time t = pad2 (hour t) @ CHR '':'' # pad2 (minute t)"
    by (simp add: str_time_def)
  have "\<not> is_space (digit_char (hour t div 10 mod 10))"
    using is_digit_neq [OF is_digit_digit_char, of "hour t div 10 mod 10"] by simp
  then have d: "dropWhile is_space (str_time t) = str_time t"
    by (simp add: s pad2_def)
  show ?thesis
    unfolding strptime_time_def d Let_def unfolding s no_colon_pad2
    by (simp add: hour_of_pad2 minute_of_pad2 assms)
qed

lemma stem_csv:
  assumes "list_all (\<lambda>c. c \<noteq> CHR ''.'') s" "s \<noteq> []"
  shows "stem (s @ ''.csv'') = s"
proof -
  have "takeWhile (\<lambda>c. c \<noteq> CHR ''.'') (rev (s @ ''.csv'')) = ''vsc''"
    by simp
  then show ?thesis
    using assms(2) by (simp add: stem_def Let_def)
qed

lemma str_date_no_dot: "list_all (\<lambda>c. c \<noteq> CHR ''.'') (str_date d)" "str_date d \<noteq> []"
  using pad2_digits [of "month d"] pad2_digits [of "day d"] pad4_digits [of "year d"]
  by (auto simp: str_date_def list_all_iff pad4_def dest: is_digit_neq)

lemma digits_val_append: "digits_val (s @ [c]) = 10 * digits_val s + digit_val c"
  by (simp add: digits_val_def)

lemma digits_val_str_nat: "digits_val (str_nat n) = n"
proof (induction n rule: str_nat.induct)
  case (1 n)
  show ?case
  proof (cases "n < 10")
    case True
    then show ?thesis
      by (subst str_nat.simps) (simp add: digits_val_def digit_val_digit_char)
  next
    case False
    with 1 show ?thesis
      by (subst str_nat.simps) (simp add: digits_val_append digit_val_digit_char)
  qed
qed

lemma digits_ok_all: "list_all is_digit s \<Longrightarrow> s \<noteq> [] \<Longrightarrow> digits_ok s"
proof (induction s rule: digits_ok.induct)
  case 1
  then show ?case by simp
next
  case (2 c)
  then show ?case by simp
next
  case (3 c d ds)
  then show ?case by (auto dest: is_digit_neq)
qed

lemma filter_digits: "list_all is_digit s \<Longrightarrow> filter (\<lambda>x. x \<noteq> CHR ''_'') s = s"
  by (induction s) (auto dest: is_digit_neq)

lemma strip_digits:
  assumes "\<not> is_space (hd s)" "\<not> is_space (last s)" "s \<noteq> []"
  shows "strip s = s"
proof -
  have a: "dropWhile is_space s = s" using assms(1,3) by (cases s) auto
  have "dropWhile is_space (rev s) = rev s"
    using assms(2,3) by (cases "rev s") (auto simp: last_rev [symmetric] hd_rev)
  then show ?thesis by (simp add: strip_def a)
qed

lemma str_nat_ends:
  "is_digit (hd (str_nat n))" "is_digit (last (str_nat n))"
  using str_nat_digits [of n] str_nat_nonempty [of n]
  by (auto simp: list_all_iff)

lemma py_int_digits:
  assumes "list_all is_digit s" "s \<noteq> []"
  shows "py_int s = Some (int (digits_val s))"
proof -
  obtain x xs where s: "s = x # xs" using assms(2) by (cases s) auto
  have e: "is_digit (hd s)" "is_digit (last s)" using assms by (auto simp: list_all_iff)
  have st: "strip s = s"
    using strip_digits [of s] e assms(2) by (auto dest: is_digit_neq)
  have x: "x \<noteq> CHR ''-''" "x \<noteq> CHR ''+''"
    using e(1) s by (auto dest: is_digit_neq)
  show ?thesis
    unfolding py_int_def st
    using digits_ok_all [OF assms] filter_digits [OF assms(1)] x
    unfolding s by (simp add: Let_def)
qed

lemma py_int_minus:
  assumes "list_all is_digit s" "s \<noteq> []"
  shows "py_int (CHR ''-'' # s) = Some (- int (digits_val s))"
proof -
  have l: "is_digit (last s)" using assms by (auto simp: list_all_iff)
  have sp: "\<not> is_space (CHR ''-'')" by (simp add: is_space_def)
  have st: "strip (CHR ''-'' # s) = CHR ''-'' # s"
    using strip_digits [of "CHR ''-'' # s"] l assms(2) sp by (auto dest: is_digit_neq)
  show ?thesis
    using digits_ok_all [OF assms] filter_digits [OF assms(1)]
    by (simp add: py_int_def st Let_def)
qed

lemma py_int_str_int: "py_int (str_int c) = Some c"
proof (cases "c < 0")
  case True
  then show ?thesis
    using py_int_minus [OF str_nat_digits str_nat_nonempty, of "nat (- c)"]
    by (simp add: str_int_def digits_val_str_nat)
next
  case False
  then show ?thesis
    using py_int_digits [OF str_nat_digits str_nat_nonempty, of "nat c"]
    by (simp add: str_int_def digits_val_str_nat)
qed

end
